theory Spec2Isabelle
  imports Main "HOL-Library.Sublist"
begin

section \<open>Strings as the templates use them\<close>

text \<open>
  The generated backend (\<^verbatim>\<open>backend/app/main.py\<close>) and the generated dashboard
  (\<^verbatim>\<open>streamlit_app/app.py\<close>) are the two programs that \<^verbatim>\<open>setup_project.py\<close>
  writes out. Their text is held in \<^verbatim>\<open>main_py_content\<close> and \<^verbatim>\<open>app_py_content\<close>;
  the definitions below follow that text line by line.

  A Python \<^verbatim>\<open>str\<close> is modelled as a HOL \<^typ>\<open>string\<close>, a list of characters with
  code points below 256. \<^verbatim>\<open>str.lower()\<close> on that range maps \<^verbatim>\<open>A\<close>..\<^verbatim>\<open>Z\<close> and the
  Latin-1 capitals (192..222 without the multiplication sign 215) to the code point
  32 above, and leaves every other character alone.
\<close>

definition lower_char :: "char \<Rightarrow> char" where
  "lower_char c =
     (let n = (of_char c :: nat)
      in if (65 \<le> n \<and> n \<le> 90) \<or> (192 \<le> n \<and> n \<le> 222 \<and> n \<noteq> 215)
         then char_of (n + 32) else c)"

definition lower :: "string \<Rightarrow> string" where
  "lower s = map lower_char s"

text \<open>
  \<^verbatim>\<open>s.split(sep)\<close> for a one-character separator: the pieces between the
  separators, in order; a string without the separator is returned whole as the
  only piece, and the result is never the empty list.
\<close>

fun split :: "char \<Rightarrow> string \<Rightarrow> string list" where
  "split sep [] = [[]]"
| "split sep (c # cs) =
     (if c = sep then [] # split sep cs
      else (case split sep cs of
              [] \<Rightarrow> [[c]]
            | piece # pieces \<Rightarrow> (c # piece) # pieces))"

text \<open>
  \<^verbatim>\<open>needle in hay\<close> on two strings: \<^verbatim>\<open>needle\<close> occurs in \<^verbatim>\<open>hay\<close> as a
  contiguous run of characters, starting at some position.
\<close>

fun str_in :: "string \<Rightarrow> string \<Rightarrow> bool" where
  "str_in needle [] = (needle = [])"
| "str_in needle (c # cs) = (prefix needle (c # cs) \<or> str_in needle cs)"

section \<open>The backend template\<close>

subsection \<open>Educational e-mail validation\<close>

text \<open>
  \<^verbatim>\<open>
  def validate_edu_email(email: str):
      allowed_domains = [".edu", ".ac.", ".edu.in", ".school.nz", ".ac.uk", ".edu.au"]
      domain = email.split('@')[-1].lower()
      return any(allowed_domain in domain for allowed_domain in allowed_domains)
  \<close>
  The index \<^verbatim>\<open>[-1]\<close> reads the last piece; \<^const>\<open>split\<close> never returns the empty
  list (lemma \<open>split_not_Nil\<close> below), so the read cannot raise.
\<close>

definition allowed_domains :: "string list" where
  "allowed_domains =
     [''.edu'', ''.ac.'', ''.edu.in'', ''.school.nz'', ''.ac.uk'', ''.edu.au'']"

definition domain_of :: "string \<Rightarrow> string" where
  "domain_of email = lower (last (split CHR ''@'' email))"

definition validate_edu_email :: "string \<Rightarrow> bool" where
  "validate_edu_email email =
     (let domain = domain_of email
      in list_ex (\<lambda>allowed_domain. str_in allowed_domain domain) allowed_domains)"

subsection \<open>The password library, the clock and the store\<close>

text \<open>
  \<^verbatim>\<open>pwd_context = CryptContext(schemes=["bcrypt"], deprecated="auto")\<close> belongs to
  the third-party password library, whose code is not part of the repository. It is a
  parameter of the model: \<open>ctx_hash\<close> takes the salt that the library draws for
  the call and the password and gives the stored hash; \<open>ctx_verify\<close> takes a
  plain password and a stored hash. \<^verbatim>\<open>datetime.utcnow()\<close> is a parameter of
  \<open>register\<close> in the same way.
\<close>

record pwd_context =
  ctx_hash :: "string \<Rightarrow> string \<Rightarrow> string"
  ctx_verify :: "string \<Rightarrow> string \<Rightarrow> bool"

definition hash_password :: "pwd_context \<Rightarrow> string \<Rightarrow> string \<Rightarrow> string" where
  "hash_password pwd_ctx salt password = ctx_hash pwd_ctx salt password"

definition verify_password :: "pwd_context \<Rightarrow> string \<Rightarrow> string \<Rightarrow> bool" where
  "verify_password pwd_ctx plain_password hashed_password =
     ctx_verify pwd_ctx plain_password hashed_password"

text \<open>
  The request bodies \<^verbatim>\<open>UserRegister\<close> and \<^verbatim>\<open>UserLogin\<close>, with the fields of
  the source (the two fields of the login body carry the prefix \<open>login_\<close>).
\<close>

record UserRegister =
  full_name :: string
  email :: string
  password :: string
  role :: string
  institution :: string

record UserLogin =
  login_email :: string
  login_password :: string

text \<open>
  A value of \<^verbatim>\<open>users_db\<close>: the dictionary with the keys \<^verbatim>\<open>full_name\<close>,
  \<^verbatim>\<open>password_hash\<close>, \<^verbatim>\<open>role\<close>, \<^verbatim>\<open>institution\<close> and \<^verbatim>\<open>created_at\<close> that
  \<^verbatim>\<open>register\<close> stores. It always has these five keys, so it is never the empty
  dictionary and \<^verbatim>\<open>not user\<close> in \<^verbatim>\<open>login\<close> is true only for \<^verbatim>\<open>None\<close>.
\<close>

record account =
  acc_full_name :: string
  password_hash :: string
  acc_role :: string
  acc_institution :: string
  created_at :: nat

type_synonym users_db = "string \<rightharpoonup> account"

text \<open>\<^verbatim>\<open>raise HTTPException(status_code=..., detail=...)\<close> is the left summand of a result.\<close>

datatype http_exception = HTTPException (status_code: nat) (detail: string)

text \<open>
  The three failures that the handlers raise, under the names that the
  specification gives them.
\<close>

definition InvalidEmailDomain :: http_exception where
  "InvalidEmailDomain =
     HTTPException 400 ''Please use a valid educational email address (.edu, .ac.* domains)''"

definition DuplicateAccount :: http_exception where
  "DuplicateAccount = HTTPException 400 ''User with this email already exists''"

definition InvalidCredentials :: http_exception where
  "InvalidCredentials = HTTPException 401 ''Invalid email or password''"

record register_response =
  reg_message :: string
  reg_email :: string
  reg_role :: string

record login_response =
  resp_message :: string
  resp_email :: string
  resp_role :: string
  resp_full_name :: string

subsection \<open>Registration and login\<close>

text \<open>
  \<^verbatim>\<open>
  def register(user: UserRegister):
      if not validate_edu_email(user.email):
          raise HTTPException(status_code=400, detail="Please use a valid ...")
      if user.email in users_db:
          raise HTTPException(status_code=400, detail="User with this email already exists")
      users_db[user.email] = {
          "full_name": user.full_name,
          "password_hash": hash_password(user.password),
          "role": user.role,
          "institution": user.institution,
          "created_at": datetime.utcnow()
      }
      return {"message": "Registration successful", "email": user.email, "role": user.role}
  \<close>
  The global \<^verbatim>\<open>users_db\<close> is passed in and returned.
\<close>

definition register ::
  "pwd_context \<Rightarrow> string \<Rightarrow> nat \<Rightarrow> users_db \<Rightarrow> UserRegister
     \<Rightarrow> (http_exception + register_response) \<times> users_db" where
  "register pwd_ctx salt utcnow db user =
     (if \<not> validate_edu_email (email user) then (Inl InvalidEmailDomain, db)
      else if email user \<in> dom db then (Inl DuplicateAccount, db)
      else
        (Inr \<lparr>reg_message = ''Registration successful'',
              reg_email = email user,
              reg_role = role user\<rparr>,
         db(email user \<mapsto>
              \<lparr>acc_full_name = full_name user,
               password_hash = hash_password pwd_ctx salt (password user),
               acc_role = role user,
               acc_institution = institution user,
               created_at = utcnow\<rparr>)))"

text \<open>
  \<^verbatim>\<open>
  def login(login_data: UserLogin):
      user = users_db.get(login_data.email)
      if not user or not verify_password(login_data.password, user["password_hash"]):
          raise HTTPException(status_code=401, detail="Invalid email or password")
      return {"message": "Login successful", "email": login_data.email,
              "role": user["role"], "full_name": user["full_name"]}
  \<close>
\<close>

definition login ::
  "pwd_context \<Rightarrow> users_db \<Rightarrow> UserLogin \<Rightarrow> (http_exception + login_response) \<times> users_db" where
  "login pwd_ctx db login_data =
     (case db (login_email login_data) of
        None \<Rightarrow> (Inl InvalidCredentials, db)
      | Some user \<Rightarrow>
          if \<not> verify_password pwd_ctx (login_password login_data) (password_hash user)
          then (Inl InvalidCredentials, db)
          else
            (Inr \<lparr>resp_message = ''Login successful'',
                  resp_email = login_email login_data,
                  resp_role = acc_role user,
                  resp_full_name = acc_full_name user\<rparr>,
             db))"

section \<open>The dashboard template: the registration form\<close>

text \<open>
  The form \<^verbatim>\<open>register_form\<close> of \<^verbatim>\<open>login_ui\<close>. Its inputs are the widgets' values
  when the button is pressed; \<^verbatim>\<open>role\<close> comes from a select box with four options.
  \<^verbatim>\<open>st.error\<close> and \<^verbatim>\<open>st.success\<close> show a message (the emoji that starts each
  message in the source is left out); \<^verbatim>\<open>st.session_state\<close> is passed in and
  returned, a key that is not set being \<open>None\<close>.
  \<^verbatim>\<open>
  if register_btn:
      if not all([full_name, email, password, institution_input]):
          st.error("Please fill in all required fields")
      elif len(password) < 8:
          st.error("Password must be at least 8 characters long")
      elif password != confirm_password:
          st.error("Passwords do not match")
      elif not agree_terms:
          st.error("Please agree to the terms and conditions")
      elif not any(domain in email.lower() for domain in ['.edu', '.ac.', '.school', '.college']):
          st.error("Please use a valid educational email address (.edu, .ac.* domains)")
      else:
          st.success(f"Registration successful! Welcome to GAIA, {full_name}!")
          st.session_state.logged_in = True
          st.session_state.user_email = email
          st.session_state.user_role = role.lower()
          st.session_state.user_institution = institution_input
          st.session_state.full_name = full_name
          st.rerun()
  \<close>
\<close>

datatype role_option = Student | Professor | Researcher | Administrator

fun role_text :: "role_option \<Rightarrow> string" where
  "role_text Student = ''Student''"
| "role_text Professor = ''Professor''"
| "role_text Researcher = ''Researcher''"
| "role_text Administrator = ''Administrator''"

record register_form =
  form_full_name :: string
  form_email :: string
  form_password :: string
  confirm_password :: string
  form_role :: role_option
  institution_input :: string
  agree_terms :: bool

record session_state =
  logged_in :: bool
  user_email :: "string option"
  user_role :: "string option"
  user_institution :: "string option"
  state_full_name :: "string option"

datatype st_message = is_error: Error string | Success string

definition client_domains :: "string list" where
  "client_domains = [''.edu'', ''.ac.'', ''.school'', ''.college'']"

definition register_form_submit ::
  "session_state \<Rightarrow> register_form \<Rightarrow> st_message \<times> session_state" where
  "register_form_submit st f =
     (if \<not> list_all (\<lambda>s. s \<noteq> [])
              [form_full_name f, form_email f, form_password f, institution_input f]
      then (Error ''Please fill in all required fields'', st)
      else if length (form_password f) < 8
      then (Error ''Password must be at least 8 characters long'', st)
      else if form_password f \<noteq> confirm_password f
      then (Error ''Passwords do not match'', st)
      else if \<not> agree_terms f
      then (Error ''Please agree to the terms and conditions'', st)
      else if \<not> list_ex (\<lambda>domain. str_in domain (lower (form_email f))) client_domains
      then (Error ''Please use a valid educational email address (.edu, .ac.* domains)'', st)
      else
        (Success (''Registration successful! Welcome to GAIA, '' @ form_full_name f @ ''!''),
         st\<lparr>logged_in := True,
            user_email := Some (form_email f),
            user_role := Some (lower (role_text (form_role f))),
            user_institution := Some (institution_input f),
            state_full_name := Some (form_full_name f)\<rparr>))"

text \<open>
  A sample instance of the library parameter, for running the model on concrete
  inputs: the hash is the salt, a dollar sign and the password; verification
  compares the text after the first dollar sign with the password.
\<close>

definition sample_ctx :: pwd_context where
  "sample_ctx =
     \<lparr>ctx_hash = (\<lambda>salt password. salt @ ''$'' @ password),
      ctx_verify = (\<lambda>plain hashed. tl (dropWhile (\<lambda>c. c \<noteq> CHR ''$'') hashed) = plain)\<rparr>"

section \<open>Sample inputs\<close>

text \<open>
  Concrete values on which the model is run below: a registration request, the store
  after that request on an empty store, a form whose password is too short, and the
  session state before anyone has signed in.
\<close>

definition sample_user :: UserRegister where
  "sample_user =
     \<lparr>full_name = ''Ada Lovelace'', email = ''ada@mit.edu'', password = ''analytical'',
      role = ''student'', institution = ''MIT''\<rparr>"

definition sample_db :: users_db where
  "sample_db = snd (register sample_ctx ''s1'' 1 Map.empty sample_user)"

definition short_form :: register_form where
  "short_form =
     \<lparr>form_full_name = ''Ada Lovelace'', form_email = ''ada@mit.edu'',
      form_password = ''short'', confirm_password = ''short'', form_role = Student,
      institution_input = ''MIT'', agree_terms = True\<rparr>"

definition fresh_state :: session_state where
  "fresh_state =
     \<lparr>logged_in = False, user_email = None, user_role = None,
      user_institution = None, state_full_name = None\<rparr>"

section \<open>Facts about the string operations\<close>

lemma split_not_Nil: "split sep s \<noteq> []"
  by (induction s) (auto split: list.splits)

lemma str_in_iff_sublist: "str_in needle hay \<longleftrightarrow> sublist needle hay"
  by (induction hay) (auto simp: sublist_Cons_right)

lemma split_no_sep: "sep \<notin> set s \<Longrightarrow> split sep s = [s]"
  by (induction s) auto

lemma length_split: "length (split sep s) = Suc (length (filter (\<lambda>c. c = sep) s))"
  by (induction s) (auto split: list.splits)

lemma split_singleton_no_sep: "split sep s = [piece] \<Longrightarrow> sep \<notin> set s"
proof
  assume one: "split sep s = [piece]" and "sep \<in> set s"
  then have "filter (\<lambda>c. c = sep) s \<noteq> []"
    by (simp add: filter_empty_conv)
  then have "2 \<le> length (split sep s)"
    by (cases "filter (\<lambda>c. c = sep) s") (simp_all add: length_split)
  with one show False by simp
qed

lemma last_split_Cons:
  "last (split sep (c # cs)) =
     (if sep \<in> set cs then last (split sep cs) else if c = sep then cs else c # cs)"
proof (cases "sep \<in> set cs")
  case False
  then show ?thesis by (simp add: split_no_sep)
next
  case True
  show ?thesis
  proof (cases "split sep cs")
    case Nil
    then show ?thesis using split_not_Nil [of sep cs] by simp
  next
    case (Cons piece pieces)
    with True have "pieces \<noteq> []"
      using split_singleton_no_sep [of sep cs piece] by auto
    with Cons True show ?thesis by simp
  qed
qed

lemma last_split_append: "last (split sep (pre @ sep # d)) = last (split sep d)"
proof (induction pre)
  case Nil
  then show ?case by (simp add: split_not_Nil)
next
  case (Cons c pre)
  have "sep \<in> set (pre @ sep # d)" by simp
  then have "last (split sep (c # pre @ sep # d)) = last (split sep (pre @ sep # d))"
    by (simp only: last_split_Cons if_True)
  with Cons show ?case by simp
qed

lemma last_split_after_sep:
  "sep \<notin> set d \<Longrightarrow> last (split sep (pre @ sep # d)) = d"
  by (simp add: last_split_append split_no_sep)

lemma of_char_lower_char:
  "(of_char (lower_char c) :: nat) =
     (if (65 \<le> (of_char c :: nat) \<and> (of_char c :: nat) \<le> 90)
         \<or> (192 \<le> (of_char c :: nat) \<and> (of_char c :: nat) \<le> 222 \<and> (of_char c :: nat) \<noteq> 215)
      then of_char c + 32 else of_char c)"
  by (simp add: lower_char_def Let_def)

lemma lower_char_at: "lower_char c = CHR ''@'' \<longleftrightarrow> c = CHR ''@''"
proof -
  have "lower_char c = CHR ''@'' \<longleftrightarrow> (of_char (lower_char c) :: nat) = of_char (CHR ''@'')"
    by (simp only: of_char_eq_iff)
  also have "\<dots> \<longleftrightarrow> (of_char c :: nat) = of_char (CHR ''@'')"
    by (simp add: of_char_lower_char)
  also have "\<dots> \<longleftrightarrow> c = CHR ''@''"
    by (simp only: of_char_eq_iff)
  finally show ?thesis .
qed

lemma split_lower: "split CHR ''@'' (lower s) = map lower (split CHR ''@'' s)"
proof (induction s)
  case Nil
  then show ?case by (simp add: lower_def)
next
  case (Cons c s)
  then show ?case
    using split_not_Nil [of "CHR ''@''" s]
    by (auto simp: lower_def lower_char_at split: list.splits)
qed

lemma domain_of_lower: "domain_of addr = last (split CHR ''@'' (lower addr))"
  by (simp add: domain_of_def split_lower last_map split_not_Nil)

lemma validate_case_variant:
  "lower e' = lower e \<Longrightarrow> validate_edu_email e' = validate_edu_email e"
  by (simp add: validate_edu_email_def domain_of_lower)

lemma at_notin_domain: "CHR ''@'' \<notin> set (last (split CHR ''@'' s))"
proof (induction s)
  case Nil
  then show ?case by simp
next
  case (Cons c s)
  then show ?case by (simp add: last_split_Cons del: split.simps)
qed

lemma validate_edu_email_sublist:
  "validate_edu_email addr \<longleftrightarrow>
     (\<exists>d \<in> set allowed_domains. sublist d (lower (last (split CHR ''@'' addr))))"
  by (simp add: validate_edu_email_def domain_of_def list_ex_iff str_in_iff_sublist)

section \<open>Facts about the sample inputs\<close>

lemma validate_sample: "validate_edu_email ''ada@mit.edu''"
  by (simp add: validate_edu_email_def domain_of_def lower_def lower_char_def allowed_domains_def)

lemma validate_gmail: "\<not> validate_edu_email ''user@gmail.com''"
  by (simp add: validate_edu_email_def domain_of_def lower_def lower_char_def allowed_domains_def)

lemma sample_db_eq:
  "sample_db = [''ada@mit.edu'' \<mapsto>
     \<lparr>acc_full_name = ''Ada Lovelace'', password_hash = ''s1$analytical'',
      acc_role = ''student'', acc_institution = ''MIT'', created_at = 1\<rparr>]"
  by (simp add: sample_db_def register_def sample_user_def validate_sample
      hash_password_def sample_ctx_def)

section \<open>The e-mail validator\<close>

text \<open>
  C1, as amended. The validator returns true exactly when the lower-cased text after
  the last \<^verbatim>\<open>@\<close> of its input (the whole input when there is no \<^verbatim>\<open>@\<close>) contains
  one of the six substrings \<^verbatim>\<open>.edu\<close>, \<^verbatim>\<open>.ac.\<close>, \<^verbatim>\<open>.edu.in\<close>, \<^verbatim>\<open>.school.nz\<close>,
  \<^verbatim>\<open>.ac.uk\<close>, \<^verbatim>\<open>.edu.au\<close>. Every input is \<open>host\<close> or
  \<open>local_part @ CHR ''@'' # host\<close> for exactly one \<open>host\<close> without \<^verbatim>\<open>@\<close>;
  containment is \<^const>\<open>sublist\<close> of the list library.
\<close>

theorem validate_edu_email_substrings:
  assumes "CHR ''@'' \<notin> set host"
    and "addr = host \<or> addr = local_part @ CHR ''@'' # host"
  shows "validate_edu_email addr \<longleftrightarrow>
           sublist ''.edu'' (lower host) \<or> sublist ''.ac.'' (lower host)
           \<or> sublist ''.edu.in'' (lower host) \<or> sublist ''.school.nz'' (lower host)
           \<or> sublist ''.ac.uk'' (lower host) \<or> sublist ''.edu.au'' (lower host)"
proof -
  from assms have "last (split CHR ''@'' addr) = host"
    by (auto simp: last_split_after_sep split_no_sep)
  then show ?thesis
    by (simp add: validate_edu_email_sublist allowed_domains_def)
qed

text \<open>The theorem at \<^verbatim>\<open>student@mit.edu\<close>, which the validator accepts.\<close>

theorem validate_edu_email_substrings_witness:
  "CHR ''@'' \<notin> set ''mit.edu'' \<and> validate_edu_email ''student@mit.edu''
   \<and> sublist ''.edu'' (lower ''mit.edu'')"
  using validate_edu_email_substrings [of "''mit.edu''" "''student@mit.edu''" "''student''"]
  by (simp add: str_in_iff_sublist [symmetric] lower_def lower_char_def)

text \<open>
  C1 as it is written fails: the host of \<^verbatim>\<open>a@kids.school.nz\<close> contains none of
  the five substrings \<^verbatim>\<open>.edu\<close>, \<^verbatim>\<open>.ac.\<close>, \<^verbatim>\<open>.edu.in\<close>, \<^verbatim>\<open>.ac.uk\<close>, \<^verbatim>\<open>.edu.au\<close>,
  and the validator returns true, through the sixth entry \<^verbatim>\<open>.school.nz\<close> of
  \<^verbatim>\<open>allowed_domains\<close>.
\<close>

theorem validate_edu_email_five_counterexample:
  "validate_edu_email ''a@kids.school.nz''
   \<and> last (split CHR ''@'' ''a@kids.school.nz'') = ''kids.school.nz''
   \<and> \<not> (str_in ''.edu'' ''kids.school.nz'' \<or> str_in ''.ac.'' ''kids.school.nz''
         \<or> str_in ''.edu.in'' ''kids.school.nz'' \<or> str_in ''.ac.uk'' ''kids.school.nz''
         \<or> str_in ''.edu.au'' ''kids.school.nz'')"
  by (simp add: validate_edu_email_def domain_of_def lower_def lower_char_def allowed_domains_def)

text \<open>
  C2, as amended. An input without \<^verbatim>\<open>@\<close> is its own domain: \<^verbatim>\<open>split\<close> returns it
  as the only piece. The validator rejects it exactly when its lower-cased text
  contains none of the six substrings.
\<close>

theorem no_at_whole_input_is_domain:
  assumes "CHR ''@'' \<notin> set s"
  shows "domain_of s = lower s
         \<and> (validate_edu_email s \<longleftrightarrow>
              sublist ''.edu'' (lower s) \<or> sublist ''.ac.'' (lower s)
              \<or> sublist ''.edu.in'' (lower s) \<or> sublist ''.school.nz'' (lower s)
              \<or> sublist ''.ac.uk'' (lower s) \<or> sublist ''.edu.au'' (lower s))"
  using assms
  by (simp add: validate_edu_email_sublist domain_of_def split_no_sep allowed_domains_def)

text \<open>The theorem at \<^verbatim>\<open>noatsign\<close>, which the validator rejects.\<close>

theorem no_at_whole_input_is_domain_witness:
  "CHR ''@'' \<notin> set ''noatsign'' \<and> domain_of ''noatsign'' = ''noatsign''
   \<and> \<not> validate_edu_email ''noatsign''"
  using no_at_whole_input_is_domain [of "''noatsign''"]
  by (simp add: str_in_iff_sublist [symmetric] lower_def lower_char_def)

text \<open>
  C2 as it is written fails: \<^verbatim>\<open>mit.edu\<close> has no \<^verbatim>\<open>@\<close>, its domain is not empty
  but \<^verbatim>\<open>mit.edu\<close> itself, and the validator returns true.
\<close>

theorem no_at_input_accepted_counterexample:
  "CHR ''@'' \<notin> set ''mit.edu'' \<and> domain_of ''mit.edu'' = ''mit.edu''
   \<and> validate_edu_email ''mit.edu''"
  by (simp add: validate_edu_email_def domain_of_def lower_def lower_char_def allowed_domains_def)

section \<open>Registration and login\<close>

text \<open>
  C3. From any store, registering an e-mail that the validator accepts and that is
  not a key of the store succeeds and stores the account under that e-mail; a second
  request with the same e-mail (whatever its other fields, salt and time) then fails
  with \<open>DuplicateAccount\<close> and returns the store as the first request left it.
\<close>

theorem register_twice:
  assumes "validate_edu_email (email user)"
    and "email user \<notin> dom db"
    and "email again = email user"
  shows "register pwd_ctx salt utcnow db user =
           (Inr \<lparr>reg_message = ''Registration successful'',
                 reg_email = email user, reg_role = role user\<rparr>,
            db(email user \<mapsto>
                 \<lparr>acc_full_name = full_name user,
                  password_hash = hash_password pwd_ctx salt (password user),
                  acc_role = role user,
                  acc_institution = institution user,
                  created_at = utcnow\<rparr>))
         \<and> register pwd_ctx salt' utcnow' (snd (register pwd_ctx salt utcnow db user)) again =
           (Inl DuplicateAccount, snd (register pwd_ctx salt utcnow db user))"
  using assms by (simp add: register_def)

text \<open>The theorem at the sample request on the empty store.\<close>

theorem register_twice_witness:
  "validate_edu_email (email sample_user) \<and> email sample_user \<notin> dom (Map.empty :: users_db)
   \<and> register sample_ctx ''s1'' 1 Map.empty sample_user =
        (Inr \<lparr>reg_message = ''Registration successful'',
              reg_email = email sample_user, reg_role = role sample_user\<rparr>,
         [email sample_user \<mapsto>
              \<lparr>acc_full_name = full_name sample_user,
               password_hash = hash_password sample_ctx ''s1'' (password sample_user),
               acc_role = role sample_user,
               acc_institution = institution sample_user,
               created_at = 1\<rparr>])
   \<and> register sample_ctx ''s2'' 2
         (snd (register sample_ctx ''s1'' 1 Map.empty sample_user)) sample_user =
        (Inl DuplicateAccount, snd (register sample_ctx ''s1'' 1 Map.empty sample_user))"
proof -
  have valid: "validate_edu_email (email sample_user)"
    by (simp add: sample_user_def validate_sample)
  have fresh: "email sample_user \<notin> dom (Map.empty :: users_db)"
    by simp
  show ?thesis
    using valid fresh
      register_twice [OF valid fresh refl, of sample_ctx "''s1''" 1 "''s2''" 2]
    by blast
qed

text \<open>
  C4. For an account \<open>acc\<close> stored under \<open>addr\<close> whose hash is the library's
  hash of \<open>pw\<close>, login with \<open>addr\<close> and \<open>pw\<close> succeeds and returns the role and
  the full name of \<open>acc\<close>. The library is a parameter, so its round trip on this
  password is a hypothesis.
\<close>

theorem login_stored_account:
  assumes "db addr = Some acc"
    and "password_hash acc = hash_password pwd_ctx salt pw"
    and "verify_password pwd_ctx pw (hash_password pwd_ctx salt pw)"
  shows "login pwd_ctx db \<lparr>login_email = addr, login_password = pw\<rparr> =
           (Inr \<lparr>resp_message = ''Login successful'', resp_email = addr,
                 resp_role = acc_role acc, resp_full_name = acc_full_name acc\<rparr>, db)"
  using assms by (simp add: login_def)

text \<open>The theorem at the sample store, with the password given at registration.\<close>

theorem login_stored_account_witness:
  "login sample_ctx sample_db \<lparr>login_email = ''ada@mit.edu'', login_password = ''analytical''\<rparr> =
     (Inr \<lparr>resp_message = ''Login successful'', resp_email = ''ada@mit.edu'',
           resp_role = ''student'', resp_full_name = ''Ada Lovelace''\<rparr>, sample_db)"
  using login_stored_account [of sample_db "''ada@mit.edu''"
      "\<lparr>acc_full_name = ''Ada Lovelace'', password_hash = ''s1$analytical'',
        acc_role = ''student'', acc_institution = ''MIT'', created_at = 1\<rparr>"
      sample_ctx "''s1''" "''analytical''"]
  by (simp add: sample_db_eq hash_password_def verify_password_def sample_ctx_def)

text \<open>The same for a login that follows the registration directly.\<close>

lemma register_then_login:
  assumes "validate_edu_email (email user)"
    and "email user \<notin> dom db"
    and "verify_password pwd_ctx (password user) (hash_password pwd_ctx salt (password user))"
  shows "login pwd_ctx (snd (register pwd_ctx salt utcnow db user))
           \<lparr>login_email = email user, login_password = password user\<rparr> =
           (Inr \<lparr>resp_message = ''Login successful'', resp_email = email user,
                 resp_role = role user, resp_full_name = full_name user\<rparr>,
            snd (register pwd_ctx salt utcnow db user))"
  using assms by (simp add: register_def login_def)

text \<open>
  C5. Login fails with \<open>InvalidCredentials\<close> exactly when the e-mail is not a key
  of the store or the password does not verify against the stored hash, and every
  failing login returns the same status 401, the same message and the store it was
  given, whichever of the two causes it has.
\<close>

theorem login_failure_uniform:
  "(fst (login pwd_ctx db login_data) = Inl InvalidCredentials \<longleftrightarrow>
      login_email login_data \<notin> dom db
      \<or> (\<exists>user. db (login_email login_data) = Some user
            \<and> \<not> verify_password pwd_ctx (login_password login_data) (password_hash user)))
   \<and> (isl (fst (login pwd_ctx db login_data)) \<longrightarrow>
        login pwd_ctx db login_data =
          (Inl (HTTPException 401 ''Invalid email or password''), db))"
  by (auto simp: login_def InvalidCredentials_def split: option.splits)

text \<open>
  The theorem on the sample store, at an unknown e-mail and at a wrong password for
  a known one: the two results are the same.
\<close>

theorem login_failure_uniform_witness:
  "''eve@mit.edu'' \<notin> dom sample_db
   \<and> login sample_ctx sample_db
       \<lparr>login_email = ''eve@mit.edu'', login_password = ''analytical''\<rparr> =
       (Inl (HTTPException 401 ''Invalid email or password''), sample_db)
   \<and> sample_db ''ada@mit.edu'' \<noteq> None
   \<and> login sample_ctx sample_db
       \<lparr>login_email = ''ada@mit.edu'', login_password = ''guess''\<rparr> =
       (Inl (HTTPException 401 ''Invalid email or password''), sample_db)"
proof -
  let ?unknown = "\<lparr>login_email = ''eve@mit.edu'', login_password = ''analytical''\<rparr>"
  let ?wrong = "\<lparr>login_email = ''ada@mit.edu'', login_password = ''guess''\<rparr>"
  have absent: "''eve@mit.edu'' \<notin> dom sample_db"
    by (simp add: sample_db_eq)
  have present: "sample_db ''ada@mit.edu'' \<noteq> None"
    by (simp add: sample_db_eq)
  have mismatch: "\<exists>user. sample_db (login_email ?wrong) = Some user
      \<and> \<not> verify_password sample_ctx (login_password ?wrong) (password_hash user)"
    by (simp add: sample_db_eq verify_password_def sample_ctx_def)
  have "fst (login sample_ctx sample_db ?unknown) = Inl InvalidCredentials"
    using login_failure_uniform [of sample_ctx sample_db ?unknown] absent by simp
  then have "isl (fst (login sample_ctx sample_db ?unknown))"
    by simp
  then have first: "login sample_ctx sample_db ?unknown =
      (Inl (HTTPException 401 ''Invalid email or password''), sample_db)"
    using login_failure_uniform [of sample_ctx sample_db ?unknown] by blast
  have "fst (login sample_ctx sample_db ?wrong) = Inl InvalidCredentials"
    using login_failure_uniform [of sample_ctx sample_db ?wrong] mismatch by blast
  then have "isl (fst (login sample_ctx sample_db ?wrong))"
    by simp
  then have second: "login sample_ctx sample_db ?wrong =
      (Inl (HTTPException 401 ''Invalid email or password''), sample_db)"
    using login_failure_uniform [of sample_ctx sample_db ?wrong] by blast
  from absent present first second show ?thesis by blast
qed

text \<open>
  C7. A failing \<open>register\<close> and a failing \<open>login\<close> return the store they were
  given, and a submission of the registration form that ends in an error message
  returns the session state it was given.
\<close>

theorem failure_keeps_state:
  "(isl (fst (register pwd_ctx salt utcnow db user)) \<longrightarrow>
      snd (register pwd_ctx salt utcnow db user) = db)
   \<and> (isl (fst (login pwd_ctx db login_data)) \<longrightarrow> snd (login pwd_ctx db login_data) = db)
   \<and> (is_error (fst (register_form_submit st f)) \<longrightarrow> snd (register_form_submit st f) = st)"
  by (simp add: register_def login_def register_form_submit_def split: option.splits)

text \<open>
  The theorem at a registration with a domain that is not educational, a login with
  an unknown e-mail and a form with a short password.
\<close>

theorem failure_keeps_state_witness:
  "isl (fst (register sample_ctx ''s2'' 2 sample_db (sample_user\<lparr>email := ''user@gmail.com''\<rparr>)))
   \<and> snd (register sample_ctx ''s2'' 2 sample_db (sample_user\<lparr>email := ''user@gmail.com''\<rparr>)) = sample_db
   \<and> isl (fst (login sample_ctx sample_db \<lparr>login_email = ''eve@mit.edu'', login_password = ''x''\<rparr>))
   \<and> snd (login sample_ctx sample_db \<lparr>login_email = ''eve@mit.edu'', login_password = ''x''\<rparr>) = sample_db
   \<and> is_error (fst (register_form_submit fresh_state short_form))
   \<and> snd (register_form_submit fresh_state short_form) = fresh_state"
proof -
  have r: "isl (fst (register sample_ctx ''s2'' 2 sample_db (sample_user\<lparr>email := ''user@gmail.com''\<rparr>)))"
    by (simp add: register_def validate_gmail)
  have l: "isl (fst (login sample_ctx sample_db \<lparr>login_email = ''eve@mit.edu'', login_password = ''x''\<rparr>))"
    by (simp add: login_def sample_db_eq)
  have f: "is_error (fst (register_form_submit fresh_state short_form))"
    by (simp add: register_form_submit_def short_form_def)
  show ?thesis
    using r l f
      failure_keeps_state [of sample_ctx "''s2''" 2 sample_db
        "sample_user\<lparr>email := ''user@gmail.com''\<rparr>"
        "\<lparr>login_email = ''eve@mit.edu'', login_password = ''x''\<rparr>" fresh_state short_form]
    by blast
qed

section \<open>Required fields and the checks of the form\<close>

text \<open>
  C8, as amended. In the registration form, a submission whose full name, e-mail,
  password or institution is empty ends in the error
  \<^verbatim>\<open>Please fill in all required fields\<close> and leaves the session state as it was,
  and the role, one of the four options of the select box, is never empty; in the
  backend, a request whose e-mail is empty fails with
  \<open>InvalidEmailDomain\<close> and leaves the store as it was.
\<close>

theorem required_fields:
  "(form_full_name f = [] \<or> form_email f = [] \<or> form_password f = []
      \<or> institution_input f = [] \<longrightarrow>
      register_form_submit st f = (Error ''Please fill in all required fields'', st))
   \<and> role_text (form_role f) \<noteq> []
   \<and> (email user = [] \<longrightarrow>
        register pwd_ctx salt utcnow db user = (Inl InvalidEmailDomain, db))"
  by (cases "form_role f")
    (auto simp: register_form_submit_def register_def validate_edu_email_def domain_of_def
      lower_def allowed_domains_def)

text \<open>The theorem at a form without institution and a request without e-mail.\<close>

theorem required_fields_witness:
  "register_form_submit fresh_state (short_form\<lparr>institution_input := []\<rparr>) =
     (Error ''Please fill in all required fields'', fresh_state)
   \<and> register sample_ctx ''s2'' 2 sample_db (sample_user\<lparr>email := []\<rparr>) =
     (Inl InvalidEmailDomain, sample_db)"
  using required_fields [of "short_form\<lparr>institution_input := []\<rparr>" fresh_state
      "sample_user\<lparr>email := []\<rparr>" sample_ctx "''s2''" 2 sample_db]
  by simp

text \<open>
  C8 as it is written fails: the backend's \<open>register\<close> accepts a request whose
  full name, password, role and institution are all empty, and stores the account.
\<close>

theorem register_empty_fields_counterexample:
  "fst (register sample_ctx ''s1'' 1 Map.empty
          \<lparr>full_name = [], email = ''a@b.edu'', password = [], role = [],
           institution = []\<rparr>) =
     Inr \<lparr>reg_message = ''Registration successful'', reg_email = ''a@b.edu'', reg_role = []\<rparr>
   \<and> snd (register sample_ctx ''s1'' 1 Map.empty
          \<lparr>full_name = [], email = ''a@b.edu'', password = [], role = [],
           institution = []\<rparr>) ''a@b.edu'' =
     Some \<lparr>acc_full_name = [], password_hash = ''s1$'', acc_role = [],
           acc_institution = [], created_at = 1\<rparr>"
  by (simp add: register_def validate_edu_email_def domain_of_def lower_def lower_char_def
      allowed_domains_def hash_password_def sample_ctx_def)

text \<open>
  C9. In the registration form, a submission whose password is shorter than 8
  characters, or differs from its confirmation, or comes without the agreement to
  the terms, ends in an error message and leaves the session state as it was.
\<close>

theorem client_side_checks:
  assumes "length (form_password f) < 8 \<or> form_password f \<noteq> confirm_password f
           \<or> \<not> agree_terms f"
  shows "is_error (fst (register_form_submit st f))
         \<and> snd (register_form_submit st f) = st"
  using assms by (auto simp: register_form_submit_def)

text \<open>The theorem at the form with the password \<^verbatim>\<open>short\<close>.\<close>

theorem client_side_checks_witness:
  "length (form_password short_form) < 8
   \<and> register_form_submit fresh_state short_form =
       (Error ''Password must be at least 8 characters long'', fresh_state)"
proof -
  have short: "length (form_password short_form) < 8"
    by (simp add: short_form_def)
  have "register_form_submit fresh_state short_form =
       (Error ''Password must be at least 8 characters long'', fresh_state)"
    using client_side_checks [of short_form fresh_state] short
    by (simp add: register_form_submit_def short_form_def)
  with short show ?thesis by simp
qed

section \<open>Case-sensitive keys\<close>

text \<open>
  C10. Let \<open>addr\<close> be registered and \<open>addr'\<close> differ from it only in case.
  As long as \<open>addr'\<close> is not a key itself, registering it (with a domain that the
  validator accepts) succeeds and adds a second account beside the one of \<open>addr\<close>,
  and a login with \<open>addr'\<close> fails with \<open>InvalidCredentials\<close>.
\<close>

theorem case_variant_other_key:
  assumes "db addr = Some acc"
    and "addr' \<noteq> addr"
    and "lower addr' = lower addr"
    and "addr' \<notin> dom db"
    and "validate_edu_email addr'"
    and "email user = addr'"
  shows "fst (register pwd_ctx salt utcnow db user) =
           Inr \<lparr>reg_message = ''Registration successful'',
                reg_email = addr', reg_role = role user\<rparr>
         \<and> snd (register pwd_ctx salt utcnow db user) addr = Some acc
         \<and> snd (register pwd_ctx salt utcnow db user) addr' =
             Some \<lparr>acc_full_name = full_name user,
                   password_hash = hash_password pwd_ctx salt (password user),
                   acc_role = role user,
                   acc_institution = institution user,
                   created_at = utcnow\<rparr>
         \<and> login pwd_ctx db \<lparr>login_email = addr', login_password = pw\<rparr> =
             (Inl InvalidCredentials, db)"
  using assms by (auto simp: register_def login_def domIff)

text \<open>
  The theorem at \<^verbatim>\<open>Ada@MIT.edu\<close> on the sample store, which holds
  \<^verbatim>\<open>ada@mit.edu\<close>.
\<close>

theorem case_variant_other_key_witness:
  "sample_db ''ada@mit.edu'' =
     Some \<lparr>acc_full_name = ''Ada Lovelace'', password_hash = ''s1$analytical'',
           acc_role = ''student'', acc_institution = ''MIT'', created_at = 1\<rparr>
   \<and> ''Ada@MIT.edu'' \<noteq> ''ada@mit.edu''
   \<and> lower ''Ada@MIT.edu'' = lower ''ada@mit.edu''
   \<and> fst (register sample_ctx ''s2'' 2 sample_db (sample_user\<lparr>email := ''Ada@MIT.edu''\<rparr>)) =
        Inr \<lparr>reg_message = ''Registration successful'',
             reg_email = ''Ada@MIT.edu'', reg_role = ''student''\<rparr>
   \<and> dom (snd (register sample_ctx ''s2'' 2 sample_db
                  (sample_user\<lparr>email := ''Ada@MIT.edu''\<rparr>))) =
        {''ada@mit.edu'', ''Ada@MIT.edu''}
   \<and> login sample_ctx sample_db
        \<lparr>login_email = ''Ada@MIT.edu'', login_password = ''analytical''\<rparr> =
        (Inl InvalidCredentials, sample_db)"
proof -
  let ?acc = "\<lparr>acc_full_name = ''Ada Lovelace'', password_hash = ''s1$analytical'',
           acc_role = ''student'', acc_institution = ''MIT'', created_at = 1\<rparr>"
  let ?user = "sample_user\<lparr>email := ''Ada@MIT.edu''\<rparr>"
  have stored: "sample_db ''ada@mit.edu'' = Some ?acc"
    by (simp add: sample_db_eq)
  have other: "''Ada@MIT.edu'' \<noteq> ''ada@mit.edu''"
    by simp
  have variant: "lower ''Ada@MIT.edu'' = lower ''ada@mit.edu''"
    by code_simp
  have fresh: "''Ada@MIT.edu'' \<notin> dom sample_db"
    by (simp add: sample_db_eq)
  have valid: "validate_edu_email ''Ada@MIT.edu''"
    using validate_case_variant [OF variant] validate_sample by simp
  have key: "email ?user = ''Ada@MIT.edu''"
    by simp
  note both = case_variant_other_key [OF stored other variant fresh valid key,
      of sample_ctx "''s2''" 2 "''analytical''"]
  have "dom (snd (register sample_ctx ''s2'' 2 sample_db ?user)) =
        {''ada@mit.edu'', ''Ada@MIT.edu''}"
    using valid fresh by (auto simp: register_def sample_db_eq split: if_splits)
  with stored other variant both show ?thesis
    by (simp add: sample_user_def)
qed

end
